theory Spec2Isabelle
  imports Main "HOL-Library.AList"
begin

section \<open>JavaScript values\<close>

text \<open>
  The values that cross the API adapter are JSON values. Numbers are restricted to
  integers (their only uses here are truthiness and conversion to a string), strings are
  byte strings read as ASCII, and an object is the list of its own properties in
  insertion order, the first entry of a key being the one that counts. The value
  \<open>undefined\<close> is not a JSON value: an expression that may be \<open>undefined\<close> has type
  \<open>jsval option\<close>, with \<open>None\<close> for \<open>undefined\<close>.
\<close>

datatype jsval =
    JNull
  | JBool bool
  | JNum int
  | JStr string
  | JArr "jsval list"
  | JObj "(string \<times> jsval) list"

text \<open>An error object: its \<open>name\<close>, its \<open>message\<close> and the \<open>status\<close> property, if set.\<close>

datatype js_error = JsError (err_name: string) (err_message: string) (err_status: "nat option")

text \<open>Truthiness (\<open>!x\<close>, \<open>x || y\<close>, \<open>Boolean(x)\<close>).\<close>

fun truthy :: "jsval \<Rightarrow> bool" where
  "truthy JNull = False"
| "truthy (JBool b) = b"
| "truthy (JNum n) = (n \<noteq> 0)"
| "truthy (JStr s) = (s \<noteq> [])"
| "truthy (JArr xs) = True"
| "truthy (JObj kvs) = True"

fun js_typeof :: "jsval \<Rightarrow> string" where
  "js_typeof JNull = ''object''"
| "js_typeof (JBool b) = ''boolean''"
| "js_typeof (JNum n) = ''number''"
| "js_typeof (JStr s) = ''string''"
| "js_typeof (JArr xs) = ''object''"
| "js_typeof (JObj kvs) = ''object''"

text \<open>\<open>a || b\<close> and \<open>a ?? b\<close>, for a right operand that may be \<open>undefined\<close> and for one
  that is a value.\<close>

definition js_or :: "jsval option \<Rightarrow> jsval option \<Rightarrow> jsval option" where
  "js_or a b = (case a of None \<Rightarrow> b | Some v \<Rightarrow> if truthy v then Some v else b)"

definition js_or_val :: "jsval option \<Rightarrow> jsval \<Rightarrow> jsval" where
  "js_or_val a b = (case a of None \<Rightarrow> b | Some v \<Rightarrow> if truthy v then v else b)"

definition js_nullish :: "jsval option \<Rightarrow> jsval option \<Rightarrow> jsval option" where
  "js_nullish a b = (case a of None \<Rightarrow> b | Some v \<Rightarrow> if v = JNull then b else Some v)"

definition js_nullish_val :: "jsval option \<Rightarrow> jsval \<Rightarrow> jsval" where
  "js_nullish_val a b = (case a of None \<Rightarrow> b | Some v \<Rightarrow> if v = JNull then b else v)"

text \<open>
  Property access \<open>x.k\<close>. The program reads only the names \<open>detail\<close>, \<open>message\<close>,
  \<open>items\<close>, \<open>notes\<close>, \<open>id\<close>, \<open>note_id\<close>, \<open>_id\<close>, \<open>uuid\<close>, \<open>title\<close>, \<open>content\<close> and
  \<open>body\<close>; none of them is an index, \<open>length\<close> or a prototype property, so on an array,
  a string, a number or a boolean every such read is \<open>undefined\<close>. Reading a property of
  \<open>null\<close> raises; the program does it only behind \<open>?.\<close> or a truthiness test.
\<close>

fun js_get :: "jsval \<Rightarrow> string \<Rightarrow> jsval option" where
  "js_get (JObj kvs) k = map_of kvs k"
| "js_get v k = None"

text \<open>Optional chaining \<open>x?.k\<close>.\<close>

definition js_get_opt :: "jsval \<Rightarrow> string \<Rightarrow> jsval option" where
  "js_get_opt v k = (if v = JNull then None else js_get v k)"

subsection \<open>Strings\<close>

definition digits :: string where
  "digits = ''0123456789''"

fun show_nat :: "nat \<Rightarrow> string" where
  "show_nat n = (if n < 10 then [digits ! n] else show_nat (n div 10) @ [digits ! (n mod 10)])"

declare show_nat.simps [simp del]

definition show_int :: "int \<Rightarrow> string" where
  "show_int i = (if i < 0 then CHR ''-'' # show_nat (nat (- i)) else show_nat (nat i))"

fun join_comma :: "string list \<Rightarrow> string" where
  "join_comma [] = []"
| "join_comma [s] = s"
| "join_comma (s # t # ss) = s @ CHR '','' # join_comma (t # ss)"

text \<open>\<open>String(x)\<close>. An array is joined with commas, \<open>null\<close> elements giving the empty
  string.\<close>

fun js_String :: "jsval \<Rightarrow> string" where
  "js_String JNull = ''null''"
| "js_String (JBool b) = (if b then ''true'' else ''false'')"
| "js_String (JNum n) = show_int n"
| "js_String (JStr s) = s"
| "js_String (JArr xs) = join_comma (map (\<lambda>x. if x = JNull then [] else js_String x) xs)"
| "js_String (JObj kvs) = ''[object Object]''"

text \<open>\<open>s.trim()\<close>: the ASCII white space and line terminators.\<close>

definition is_space :: "char \<Rightarrow> bool" where
  "is_space c = (c \<in> set [CHR 0x09, CHR 0x0A, CHR 0x0B, CHR 0x0C, CHR 0x0D, CHR 0x20])"

definition js_trim :: "string \<Rightarrow> string" where
  "js_trim s = rev (dropWhile is_space (rev (dropWhile is_space s)))"

text \<open>\<open>s.toLowerCase()\<close> on ASCII letters.\<close>

definition lower_char :: "char \<Rightarrow> char" where
  "lower_char c =
     (case map_of (zip ''ABCDEFGHIJKLMNOPQRSTUVWXYZ'' ''abcdefghijklmnopqrstuvwxyz'') c of
        None \<Rightarrow> c
      | Some l \<Rightarrow> l)"

definition toLowerCase :: "string \<Rightarrow> string" where
  "toLowerCase s = map lower_char s"

text \<open>\<open>h.includes(n)\<close>: \<open>n\<close> occurs in \<open>h\<close> as a contiguous substring.\<close>

fun js_includes :: "string \<Rightarrow> string \<Rightarrow> bool" where
  "js_includes [] n = (n = [])"
| "js_includes (c # cs) n = (take (length n) (c # cs) = n \<or> js_includes cs n)"

text \<open>\<open>encodeURIComponent\<close>: every byte outside the unreserved set becomes \<open>%XX\<close>.\<close>

definition unreserved :: "char \<Rightarrow> bool" where
  "unreserved c =
     (c \<in> set ''ABCDEFGHIJKLMNOPQRSTUVWXYZabcdefghijklmnopqrstuvwxyz0123456789-_.!~*()''
      \<or> c = CHR 0x27)"

definition hex_digits :: string where
  "hex_digits = ''0123456789ABCDEF''"

definition encode_char :: "char \<Rightarrow> string" where
  "encode_char c =
     (if unreserved c then [c]
      else [CHR ''%'', hex_digits ! (of_char c div 16), hex_digits ! (of_char c mod 16)])"

definition encodeURIComponent :: "string \<Rightarrow> string" where
  "encodeURIComponent s = concat (map encode_char s)"

section \<open>The transport\<close>

text \<open>
  A request as \<open>fetch\<close> receives it; \<open>req_method\<close> is its \<open>method\<close>. The signal is the
  number of the abort controller it belongs to, if any.
\<close>

record request =
  url :: string
  req_method :: string
  headers :: "(string \<times> string) list"
  body :: "string option"
  signal :: "nat option"

text \<open>A rejection of \<open>fetch\<close>, \<open>res.json()\<close> or \<open>res.text()\<close>: an error of the browser,
  with a name and a message and no \<open>status\<close> property.\<close>

datatype rejection = Rejection (rej_name: string) (rej_message: string)

definition to_error :: "rejection \<Rightarrow> js_error" where
  "to_error r = JsError (rej_name r) (rej_message r) None"

text \<open>
  A response: its status, its \<open>content-type\<close> header, and what \<open>res.json()\<close> and
  \<open>res.text()\<close> settle with (only one of the two is ever read).
\<close>

record response =
  status :: nat
  content_type :: "string option"
  json_result :: "rejection + jsval"
  text_result :: "rejection + string"

datatype fetch_outcome = Rejected rejection | Resolved response

text \<open>The backend and the network: what \<open>fetch\<close> settles with, given the requests made
  so far and the request at hand.\<close>

type_synonym server = "request list \<Rightarrow> request \<Rightarrow> fetch_outcome"

text \<open>The two environment settings.\<close>

record env =
  REACT_APP_API_BASE :: "string option"
  REACT_APP_BACKEND_URL :: "string option"

section \<open>notesApi.js\<close>

definition normalizeBaseUrl :: "string \<Rightarrow> string" where
  "normalizeBaseUrl u = (if u = [] then [] else rev (dropWhile (\<lambda>c. c = CHR ''/'') (rev u)))"

definition str_or :: "string option \<Rightarrow> string \<Rightarrow> string" where
  "str_or a b = (case a of None \<Rightarrow> b | Some s \<Rightarrow> if s = [] then b else s)"

definition getApiBaseUrl :: "env \<Rightarrow> string" where
  "getApiBaseUrl e =
     normalizeBaseUrl (str_or (REACT_APP_API_BASE e) (str_or (REACT_APP_BACKEND_URL e) []))"

definition res_ok :: "response \<Rightarrow> bool" where
  "res_ok res = (200 \<le> status res \<and> status res \<le> 299)"

definition isJson :: "response \<Rightarrow> bool" where
  "isJson res = js_includes (str_or (content_type res) []) ''application/json''"

text \<open>Lines 52 to 67 of \<open>requestJson\<close>: the message of the error for a response that
  is not ok.\<close>

definition generic_message :: "response \<Rightarrow> string" where
  "generic_message res = ''Request failed ('' @ show_nat (status res) @ '')''"

definition error_message :: "response \<Rightarrow> string" where
  "error_message res =
     (if isJson res then
        (case json_result res of
           Inl r \<Rightarrow> generic_message res
         | Inr data \<Rightarrow>
             js_String (js_or_val (js_or (js_get_opt data ''detail'') (js_get_opt data ''message''))
                          (JStr (generic_message res))))
      else
        (case text_result res of
           Inl r \<Rightarrow> generic_message res
         | Inr t \<Rightarrow> if t \<noteq> [] then t else generic_message res))"

text \<open>Lines 48 to 75 of \<open>requestJson\<close>: what the call settles with, from what \<open>fetch\<close>
  settled with.\<close>

definition response_result :: "fetch_outcome \<Rightarrow> js_error + jsval" where
  "response_result out =
     (case out of
        Rejected r \<Rightarrow> Inl (to_error r)
      | Resolved res \<Rightarrow>
          if res_ok res then
            (if status res = 204 then Inr JNull
             else if isJson res then
               (case json_result res of Inl r \<Rightarrow> Inl (to_error r) | Inr d \<Rightarrow> Inr d)
             else
               (case text_result res of Inl r \<Rightarrow> Inl (to_error r) | Inr t \<Rightarrow> Inr (JStr t)))
          else Inl (JsError ''Error'' (error_message res) (Some (status res))))"

definition build_request :: "env \<Rightarrow> string \<Rightarrow> string \<Rightarrow> string option \<Rightarrow> nat option \<Rightarrow> request" where
  "build_request e path m b sg =
     \<lparr>url = (if getApiBaseUrl e \<noteq> [] then getApiBaseUrl e @ path else path),
      req_method = m,
      headers = (''Accept'', ''application/json'')
                # (if str_or b [] \<noteq> [] then [(''Content-Type'', ''application/json'')] else []),
      body = b,
      signal = sg\<rparr>"

text \<open>\<open>requestJson(path, {method, body}, signal)\<close>, with the log of the requests made.\<close>

definition requestJson ::
  "env \<Rightarrow> server \<Rightarrow> string \<Rightarrow> string \<Rightarrow> string option \<Rightarrow> nat option \<Rightarrow> request list
   \<Rightarrow> (js_error + jsval) \<times> request list" where
  "requestJson e srv path m b sg log =
     (let req = build_request e path m b sg
      in (response_result (srv log req), log @ [req]))"

text \<open>The own properties of an object or an array, as the spread \<open>{...raw}\<close> copies
  them.\<close>

fun own_entries :: "jsval \<Rightarrow> (string \<times> jsval) list" where
  "own_entries (JObj kvs) = kvs"
| "own_entries (JArr xs) = zip (map show_nat [0..<length xs]) xs"
| "own_entries v = []"

definition normalizeNote :: "jsval \<Rightarrow> jsval" where
  "normalizeNote raw =
     (if \<not> truthy raw \<or> js_typeof raw \<noteq> ''object'' then JNull
      else
        (let i = js_nullish_val
                   (js_nullish
                      (js_nullish (js_nullish (js_get raw ''id'') (js_get raw ''note_id''))
                         (js_get raw ''_id''))
                      (js_get raw ''uuid''))
                   JNull
         in JObj (AList.update ''content''
                    (js_nullish_val (js_nullish (js_get raw ''content'') (js_get raw ''body''))
                       (JStr []))
                    (AList.update ''title'' (js_nullish_val (js_get raw ''title'') (JStr []))
                       (AList.update ''id'' i (own_entries raw))))))"

definition normalizeNotesResponse :: "jsval \<Rightarrow> js_error + jsval list" where
  "normalizeNotesResponse data =
     (case (case data of
              JArr xs \<Rightarrow> data
            | _ \<Rightarrow> js_or_val (js_or (js_get_opt data ''items'') (js_get_opt data ''notes''))
                     (JArr [])) of
        JArr xs \<Rightarrow> Inr (filter truthy (map normalizeNote xs))
      | _ \<Rightarrow> Inl (JsError ''TypeError'' ''list.map is not a function'' None))"

definition listNotes ::
  "env \<Rightarrow> server \<Rightarrow> nat option \<Rightarrow> request list \<Rightarrow> (js_error + jsval list) \<times> request list" where
  "listNotes e srv sg log =
     (case requestJson e srv ''/notes'' ''GET'' None sg log of
        (Inl err, log') \<Rightarrow> (Inl err, log')
      | (Inr data, log') \<Rightarrow> (normalizeNotesResponse data, log'))"

text \<open>\<open>normalizeNote(data) || null\<close>.\<close>

definition note_or_null :: "jsval \<Rightarrow> jsval" where
  "note_or_null data = (if truthy (normalizeNote data) then normalizeNote data else JNull)"

text \<open>\<open>updateNote\<close>. \<open>JSON.stringify\<close> is the parameter \<open>stringify\<close>.\<close>

definition updateNote ::
  "env \<Rightarrow> (jsval \<Rightarrow> string) \<Rightarrow> server \<Rightarrow> jsval \<Rightarrow> jsval \<Rightarrow> nat option \<Rightarrow> request list
   \<Rightarrow> (js_error + jsval) \<times> request list" where
  "updateNote e stringify srv i payload sg log =
     (let safeId = encodeURIComponent (js_String i);
          b = stringify (JObj [(''title'', js_nullish_val (js_get_opt payload ''title'') (JStr [])),
                               (''content'', js_nullish_val (js_get_opt payload ''content'') (JStr []))])
      in case requestJson e srv (''/notes/'' @ safeId) ''PUT'' (Some b) sg log of
           (Inr data, log1) \<Rightarrow> (Inr (note_or_null data), log1)
         | (Inl err, log1) \<Rightarrow>
             if err_status err = Some 405 then
               (case requestJson e srv (''/notes/'' @ safeId) ''PATCH'' (Some b) sg log1 of
                  (Inr data, log2) \<Rightarrow> (Inr (note_or_null data), log2)
                | (Inl err2, log2) \<Rightarrow> (Inl err2, log2))
             else (Inl err, log1))"

definition searchNotes ::
  "env \<Rightarrow> server \<Rightarrow> jsval \<Rightarrow> nat option \<Rightarrow> request list \<Rightarrow> (js_error + jsval list) \<times> request list" where
  "searchNotes e srv query sg log =
     (let q = encodeURIComponent (js_trim (js_String (js_or_val (Some query) (JStr []))))
      in if q = [] then (Inr [], log)
         else
           (case (case requestJson e srv (''/notes/search?q='' @ q) ''GET'' None sg log of
                    (Inl err, log1) \<Rightarrow> (Inl err, log1)
                  | (Inr data, log1) \<Rightarrow> (normalizeNotesResponse data, log1)) of
              (Inr ns, log1) \<Rightarrow> (Inr ns, log1)
            | (Inl err1, log1) \<Rightarrow>
                (case (case requestJson e srv (''/notes/search?query='' @ q) ''GET'' None sg log1 of
                         (Inl err, log2) \<Rightarrow> (Inl err, log2)
                       | (Inr data, log2) \<Rightarrow> (normalizeNotesResponse data, log2)) of
                   (Inr ns, log2) \<Rightarrow> (Inr ns, log2)
                 | (Inl err2, log2) \<Rightarrow>
                     (case requestJson e srv (''/notes?q='' @ q) ''GET'' None sg log2 of
                        (Inl err, log3) \<Rightarrow> (Inl err, log3)
                      | (Inr data, log3) \<Rightarrow> (normalizeNotesResponse data, log3)))))"

section \<open>App.js\<close>

definition containsInsensitive :: "jsval option \<Rightarrow> jsval option \<Rightarrow> bool" where
  "containsInsensitive haystack needle =
     js_includes (toLowerCase (js_String (js_or_val haystack (JStr []))))
       (toLowerCase (js_String (js_or_val needle (JStr []))))"

definition filterClientSide :: "jsval list \<Rightarrow> jsval \<Rightarrow> jsval list" where
  "filterClientSide ns query =
     (let q = js_trim (js_String (js_or_val (Some query) (JStr [])))
      in if q = [] then ns
         else filter (\<lambda>n. containsInsensitive (js_get_opt n ''title'') (Some (JStr q))
                          \<or> containsInsensitive (js_get_opt n ''content'') (Some (JStr q))) ns)"

text \<open>
  The state of the component: the \<open>useState\<close> cells and the two refs. The cell
  \<open>notes\<close> is the field \<open>notes_st\<close>. Abort controllers are numbered; \<open>aborted\<close> lists
  those whose \<open>abort()\<close> has been called.
\<close>

record app_state =
  notes_st :: "jsval list"
  loading :: bool
  busyMutation :: bool
  error :: string
  search :: string
  modalOpen :: bool
  modalMode :: string
  activeNote :: jsval
  serverSearchActive :: bool
  listAbortRef :: "nat option"
  searchAbortRef :: "nat option"
  aborted :: "nat list"
  next_controller :: nat

definition init_state :: app_state where
  "init_state =
     \<lparr>notes_st = [], loading = False, busyMutation = False, error = [], search = [],
      modalOpen = False, modalMode = ''create'', activeNote = JNull,
      serverSearchActive = False, listAbortRef = None, searchAbortRef = None,
      aborted = [], next_controller = 0\<rparr>"

text \<open>Line 37: the notes on display.\<close>

definition visibleNotes :: "app_state \<Rightarrow> jsval list" where
  "visibleNotes s = filterClientSide (notes_st s) (JStr (search s))"

text \<open>\<open>loadNotes\<close> up to its \<open>await\<close> (lines 40 to 45, and the call of line 47): the
  new state and the signal the list request is made with.\<close>

definition loadNotes_start :: "app_state \<Rightarrow> app_state \<times> nat" where
  "loadNotes_start s =
     (let s1 = (case listAbortRef s of None \<Rightarrow> s | Some c \<Rightarrow> s\<lparr>aborted := c # aborted s\<rparr>);
          controller = next_controller s1;
          s2 = s1\<lparr>listAbortRef := Some controller, next_controller := Suc controller\<rparr>
      in (s2\<lparr>loading := True, error := []\<rparr>, controller))"

text \<open>\<open>loadNotes\<close> from the moment \<open>listNotes\<close> settles (lines 47 to 54), \<open>finally\<close>
  included.\<close>

definition loadNotes_settle :: "js_error + jsval list \<Rightarrow> app_state \<Rightarrow> app_state" where
  "loadNotes_settle r s =
     (case r of
        Inr data \<Rightarrow> (s\<lparr>notes_st := data\<rparr>)\<lparr>loading := False\<rparr>
      | Inl e \<Rightarrow>
          if err_name e = ''AbortError'' then s\<lparr>loading := False\<rparr>
          else (s\<lparr>error := (if err_message e \<noteq> [] then err_message e
                              else ''Failed to load notes.'')\<rparr>)\<lparr>loading := False\<rparr>)"

text \<open>The input's \<open>onChange\<close>; the part of the search effect that runs at once when the
  search text has changed (lines 64 to 69; from two characters on it only arms the
  timer); and the search effect from the moment \<open>searchNotes\<close> settles (lines 78 to 87).\<close>

definition setSearch :: "string \<Rightarrow> app_state \<Rightarrow> app_state" where
  "setSearch t s = s\<lparr>search := t\<rparr>"

definition search_effect :: "app_state \<Rightarrow> app_state" where
  "search_effect s =
     (let q = js_trim (js_String (js_or_val (Some (JStr (search s))) (JStr [])))
      in if length q < 2 then
           (let s1 = s\<lparr>serverSearchActive := False\<rparr>
            in case searchAbortRef s1 of None \<Rightarrow> s1 | Some c \<Rightarrow> s1\<lparr>aborted := c # aborted s1\<rparr>)
         else s)"

text \<open>The search effect when its timer fires, up to the \<open>await\<close> (lines 73 to 75, and
  the call of line 78): the new state and the signal the search request is made with.\<close>

definition search_timer_fired :: "app_state \<Rightarrow> app_state \<times> nat" where
  "search_timer_fired s =
     (let s1 = (case searchAbortRef s of None \<Rightarrow> s | Some c \<Rightarrow> s\<lparr>aborted := c # aborted s\<rparr>);
          controller = next_controller s1
      in (s1\<lparr>searchAbortRef := Some controller, next_controller := Suc controller\<rparr>,
          controller))"

definition search_settle :: "js_error + jsval list \<Rightarrow> app_state \<Rightarrow> app_state" where
  "search_settle r s =
     (case r of
        Inr results \<Rightarrow> s\<lparr>notes_st := results, serverSearchActive := True\<rparr>
      | Inl e \<Rightarrow> if err_name e = ''AbortError'' then s else s\<lparr>serverSearchActive := False\<rparr>)"

section \<open>Notions used to state the properties\<close>

text \<open>An object in the sense of \<open>typeof\<close>, \<open>null\<close> apart; a string; a value that is neither
  \<open>undefined\<close> nor \<open>null\<close>.\<close>

definition is_object :: "jsval \<Rightarrow> bool" where
  "is_object x = (case x of JArr xs \<Rightarrow> True | JObj kvs \<Rightarrow> True | _ \<Rightarrow> False)"

definition is_string :: "jsval option \<Rightarrow> bool" where
  "is_string x = (case x of Some (JStr s) \<Rightarrow> True | _ \<Rightarrow> False)"

definition non_nullish :: "jsval option \<Rightarrow> bool" where
  "non_nullish x = (case x of None \<Rightarrow> False | Some v \<Rightarrow> v \<noteq> JNull)"

text \<open>The first value of a list that is neither \<open>undefined\<close> nor \<open>null\<close>, with a
  default.\<close>

fun first_non_nullish :: "jsval option list \<Rightarrow> jsval \<Rightarrow> jsval" where
  "first_non_nullish [] d = d"
| "first_non_nullish (x # xs) d =
     (case x of
        None \<Rightarrow> first_non_nullish xs d
      | Some v \<Rightarrow> if v = JNull then first_non_nullish xs d else v)"

definition id_aliases :: "string list" where
  "id_aliases = [''note_id'', ''_id'', ''uuid'']"

text \<open>A note with \<open>id\<close>, \<open>title\<close> and \<open>content\<close> present, the last two being strings; and
  the same with the last two only required to be neither \<open>undefined\<close> nor \<open>null\<close>.\<close>

definition note_complete :: "jsval \<Rightarrow> bool" where
  "note_complete n =
     (case n of
        JObj kvs \<Rightarrow> map_of kvs ''id'' \<noteq> None \<and> is_string (map_of kvs ''title'')
                    \<and> is_string (map_of kvs ''content'')
      | _ \<Rightarrow> False)"

definition note_fields_present :: "jsval \<Rightarrow> bool" where
  "note_fields_present n =
     (case n of
        JObj kvs \<Rightarrow> map_of kvs ''id'' \<noteq> None \<and> non_nullish (map_of kvs ''title'')
                    \<and> non_nullish (map_of kvs ''content'')
      | _ \<Rightarrow> False)"

text \<open>The response has the given HTTP status; the call failed with an error carrying the
  given status.\<close>

definition is_status :: "nat \<Rightarrow> fetch_outcome \<Rightarrow> bool" where
  "is_status st out = (case out of Rejected r \<Rightarrow> False | Resolved res \<Rightarrow> status res = st)"

definition failed_with :: "nat \<Rightarrow> js_error + jsval \<Rightarrow> bool" where
  "failed_with st r = (case r of Inl err \<Rightarrow> err_status err = Some st | Inr v \<Rightarrow> False)"

text \<open>What \<open>updateNote\<close> and the attempts of \<open>searchNotes\<close> make of the result of a
  request: a failure stays the failure it is, a body is normalized.\<close>

definition note_result :: "js_error + jsval \<Rightarrow> js_error + jsval" where
  "note_result r = (case r of Inl err \<Rightarrow> Inl err | Inr data \<Rightarrow> Inr (note_or_null data))"

definition notes_result :: "js_error + jsval \<Rightarrow> js_error + jsval list" where
  "notes_result r = (case r of Inl err \<Rightarrow> Inl err | Inr data \<Rightarrow> normalizeNotesResponse data)"

text \<open>
  The message of the error for a response that is not ok, read as one chain: the
  \<open>detail\<close> or \<open>message\<close> field of a JSON body when there is one, else the raw text when
  it is not empty, else the generic string.
\<close>

definition claimed_message :: "response \<Rightarrow> string" where
  "claimed_message res =
     (case (if isJson res then
              (case json_result res of
                 Inl r \<Rightarrow> None
               | Inr data \<Rightarrow>
                   (case js_get_opt data ''detail'' of
                      None \<Rightarrow> js_get_opt data ''message''
                    | Some d \<Rightarrow> Some d))
            else None) of
        Some field \<Rightarrow> js_String field
      | None \<Rightarrow>
          (case text_result res of
             Inl r \<Rightarrow> generic_message res
           | Inr t \<Rightarrow> if t \<noteq> [] then t else generic_message res))"

text \<open>
  The same message by the kind of the response. A JSON response: the \<open>detail\<close> field
  when it is truthy, else the \<open>message\<close> field when it is truthy, both converted to a
  string, else the generic string. Any other response: the raw text when it is not
  empty, else the generic string.
\<close>

definition truthy_field :: "jsval \<Rightarrow> string \<Rightarrow> string option" where
  "truthy_field data k =
     (case js_get_opt data k of
        None \<Rightarrow> None
      | Some v \<Rightarrow> if truthy v then Some (js_String v) else None)"

definition amended_message :: "response \<Rightarrow> string" where
  "amended_message res =
     (if isJson res then
        (case json_result res of
           Inl r \<Rightarrow> generic_message res
         | Inr data \<Rightarrow>
             (case truthy_field data ''detail'' of
                Some d \<Rightarrow> d
              | None \<Rightarrow>
                  (case truthy_field data ''message'' of
                     Some m \<Rightarrow> m
                   | None \<Rightarrow> generic_message res)))
      else
        (case text_result res of
           Inl r \<Rightarrow> generic_message res
         | Inr t \<Rightarrow> if t = [] then generic_message res else t))"

subsection \<open>Sample inputs\<close>

definition same_origin :: env where
  "same_origin = \<lparr>REACT_APP_API_BASE = None, REACT_APP_BACKEND_URL = None\<rparr>"

definition json_response :: "nat \<Rightarrow> jsval \<Rightarrow> string \<Rightarrow> response" where
  "json_response st v t =
     \<lparr>status = st, content_type = Some ''application/json'', json_result = Inr v,
      text_result = Inr t\<rparr>"

definition milk_note :: jsval where
  "milk_note = JObj [(''id'', JNum 1), (''title'', JStr ''Milk''), (''content'', JStr ''buy'')]"

definition dairy_note :: jsval where
  "dairy_note =
     JObj [(''id'', JNum 7), (''title'', JStr ''Dairy''), (''content'', JStr ''cow juice'')]"

text \<open>A network that is down; one that rejects every request as aborted; a backend that
  knows \<open>PATCH\<close> and not \<open>PUT\<close>; a backend without the search path.\<close>

definition offline :: server where
  "offline log req = Rejected (Rejection ''TypeError'' ''Failed to fetch'')"

definition aborting :: server where
  "aborting log req = Rejected (Rejection ''AbortError'' ''The user aborted a request.'')"

definition patch_only :: server where
  "patch_only log req =
     (if req_method req = ''PUT''
      then Resolved (json_response 405 (JObj [(''detail'', JStr ''Method Not Allowed'')]) [])
      else Resolved (json_response 200 milk_note []))"

definition no_search_path :: server where
  "no_search_path log req =
     (if js_includes (url req) ''/notes/search''
      then Resolved (json_response 404 (JObj [(''detail'', JStr ''Not Found'')]) [])
      else Resolved (json_response 200 (JArr [milk_note]) []))"

text \<open>A backend whose search matches more than the literal text: asked for \<open>milk\<close>, it
  answers with the note titled \<open>Dairy\<close>.\<close>

definition related_search :: server where
  "related_search log req = Resolved (json_response 200 (JArr [dairy_note]) [])"

text \<open>A stand-in for \<open>JSON.stringify\<close> on an object with the fields \<open>title\<close> and
  \<open>content\<close>, for strings that need no escaping.\<close>

definition quoted :: "string \<Rightarrow> string" where
  "quoted s = CHR 0x22 # s @ [CHR 0x22]"

definition sample_stringify :: "jsval \<Rightarrow> string" where
  "sample_stringify v =
     ''{'' @ quoted ''title'' @ '':'' @ quoted (js_String (js_or_val (js_get v ''title'') (JStr [])))
     @ '','' @ quoted ''content'' @ '':''
     @ quoted (js_String (js_or_val (js_get v ''content'') (JStr []))) @ ''}''"

section \<open>Properties\<close>

subsection \<open>Supporting lemmas\<close>

lemma encodeURIComponent_empty_iff: "encodeURIComponent s = [] \<longleftrightarrow> s = []"
  by (cases s) (simp_all add: encodeURIComponent_def encode_char_def)

lemma js_String_query: "js_String (js_or_val (Some (JStr s)) (JStr [])) = s"
  by (simp add: js_or_val_def)

lemma js_get_normalizeNote_id:
  "js_get (normalizeNote (JObj kvs)) ''id'' =
     Some (js_nullish_val
             (js_nullish
                (js_nullish (js_nullish (map_of kvs ''id'') (map_of kvs ''note_id''))
                   (map_of kvs ''_id''))
                (map_of kvs ''uuid''))
             JNull)"
  by (simp add: normalizeNote_def update_conv')

lemma js_get_normalizeNote_content:
  "js_get (normalizeNote (JObj kvs)) ''content'' =
     Some (js_nullish_val (js_nullish (map_of kvs ''content'') (map_of kvs ''body'')) (JStr []))"
  by (simp add: normalizeNote_def update_conv')

lemma normalizeNote_object:
  "is_object x \<Longrightarrow>
     normalizeNote x =
       JObj (AList.update ''content''
               (js_nullish_val (js_nullish (js_get x ''content'') (js_get x ''body'')) (JStr []))
               (AList.update ''title'' (js_nullish_val (js_get x ''title'') (JStr []))
                  (AList.update ''id''
                     (js_nullish_val
                        (js_nullish
                           (js_nullish (js_nullish (js_get x ''id'') (js_get x ''note_id''))
                              (js_get x ''_id''))
                           (js_get x ''uuid''))
                        JNull)
                     (own_entries x))))"
  by (cases x) (simp_all add: normalizeNote_def is_object_def)

lemma normalizeNote_non_object: "\<not> is_object x \<Longrightarrow> normalizeNote x = JNull"
  by (cases x) (simp_all add: normalizeNote_def is_object_def)

lemma truthy_normalizeNote: "truthy (normalizeNote x) = is_object x"
  by (cases "is_object x") (simp_all add: normalizeNote_object normalizeNote_non_object)

lemma filter_truthy_normalizeNote:
  "filter truthy (map normalizeNote xs) = map normalizeNote (filter is_object xs)"
  by (induction xs) (simp_all add: truthy_normalizeNote)

lemma js_nullish_val_non_null: "b \<noteq> JNull \<Longrightarrow> js_nullish_val a b \<noteq> JNull"
  by (simp add: js_nullish_val_def split: option.splits)

lemma note_fields_present_normalizeNote:
  "is_object x \<Longrightarrow> note_fields_present (normalizeNote x)"
  by (simp add: normalizeNote_object note_fields_present_def update_conv' non_nullish_def
      js_nullish_val_non_null)

lemma normalizeNote_title_content:
  "is_object x \<Longrightarrow>
     js_get (normalizeNote x) ''title'' = Some (js_nullish_val (js_get x ''title'') (JStr []))
     \<and> js_get (normalizeNote x) ''content'' =
         Some (js_nullish_val (js_nullish (js_get x ''content'') (js_get x ''body'')) (JStr []))"
  by (simp add: normalizeNote_object update_conv')

lemma normalizeNotesResponse_array:
  "normalizeNotesResponse (JArr xs) = Inr (filter truthy (map normalizeNote xs))"
  by (simp add: normalizeNotesResponse_def)

lemma normalizeNotesResponse_items:
  "normalizeNotesResponse (JObj [(''items'', JArr xs)]) =
     Inr (filter truthy (map normalizeNote xs))"
  by (simp add: normalizeNotesResponse_def js_get_opt_def js_or_def js_or_val_def)

lemma normalizeNotesResponse_notes:
  "normalizeNotesResponse (JObj [(''notes'', JArr xs)]) =
     Inr (filter truthy (map normalizeNote xs))"
  by (simp add: normalizeNotesResponse_def js_get_opt_def js_or_def js_or_val_def)

lemma error_message_amended: "error_message res = amended_message res"
  by (simp add: error_message_def amended_message_def truthy_field_def js_or_def js_or_val_def
      split: sum.splits option.splits)

lemma failed_with_405: "failed_with 405 (response_result out) = is_status 405 out"
  by (cases out)
    (simp_all add: failed_with_def is_status_def response_result_def to_error_def res_ok_def
      split: sum.splits)

lemma build_request_method:
  "(build_request e p m b sg)\<lparr>req_method := m'\<rparr> = build_request e p m' b sg"
  by (simp add: build_request_def)

lemma requestJson_eq:
  "requestJson e srv p m b sg log =
     (response_result (srv log (build_request e p m b sg)), log @ [build_request e p m b sg])"
  by (simp add: requestJson_def Let_def)

lemma updateNote_eq:
  "updateNote e stringify srv i payload sg log =
     (if is_status 405 (srv log (build_request e p ''PUT'' b sg))
      then (note_result (response_result
                (srv (log @ [build_request e p ''PUT'' b sg]) (build_request e p ''PATCH'' b sg))),
            log @ [build_request e p ''PUT'' b sg, build_request e p ''PATCH'' b sg])
      else (note_result (response_result (srv log (build_request e p ''PUT'' b sg))),
            log @ [build_request e p ''PUT'' b sg]))"
  if "p = ''/notes/'' @ encodeURIComponent (js_String i)"
    and "b = Some (stringify
                  (JObj [(''title'', js_nullish_val (js_get_opt payload ''title'') (JStr [])),
                         (''content'', js_nullish_val (js_get_opt payload ''content'') (JStr []))]))"
proof (cases "response_result (srv log (build_request e p ''PUT'' b sg))")
  case (Inl err)
  have "(err_status err = Some 405) = is_status 405 (srv log (build_request e p ''PUT'' b sg))"
    using failed_with_405 [of "srv log (build_request e p ''PUT'' b sg)"] Inl
    by (simp add: failed_with_def)
  then show ?thesis
    using Inl that
    by (cases "response_result
                (srv (log @ [build_request e p ''PUT'' b sg]) (build_request e p ''PATCH'' b sg))")
      (simp_all add: updateNote_def requestJson_eq note_result_def Let_def)
next
  case (Inr data)
  have "\<not> is_status 405 (srv log (build_request e p ''PUT'' b sg))"
    using failed_with_405 [of "srv log (build_request e p ''PUT'' b sg)"] Inr
    by (simp add: failed_with_def)
  then show ?thesis
    using Inr that by (simp add: updateNote_def requestJson_eq note_result_def Let_def)
qed

lemma attempt_eq:
  "(case requestJson e srv p ''GET'' None sg log of
      (Inl err, log') \<Rightarrow> (Inl err, log')
    | (Inr data, log') \<Rightarrow> (normalizeNotesResponse data, log')) =
   (notes_result (response_result (srv log (build_request e p ''GET'' None sg))),
    log @ [build_request e p ''GET'' None sg])"
  by (cases "response_result (srv log (build_request e p ''GET'' None sg))")
    (simp_all add: requestJson_eq notes_result_def)

lemma searchNotes_eq:
  assumes "q = encodeURIComponent (js_trim s)" and "q \<noteq> []"
    and "a1 = build_request e (''/notes/search?q='' @ q) ''GET'' None sg"
    and "a2 = build_request e (''/notes/search?query='' @ q) ''GET'' None sg"
    and "a3 = build_request e (''/notes?q='' @ q) ''GET'' None sg"
    and "r1 = notes_result (response_result (srv log a1))"
    and "r2 = notes_result (response_result (srv (log @ [a1]) a2))"
    and "r3 = notes_result (response_result (srv (log @ [a1, a2]) a3))"
  shows "searchNotes e srv (JStr s) sg log =
           (if isl r1 then
              (if isl r2 then (r3, log @ [a1, a2, a3]) else (r2, log @ [a1, a2]))
            else (r1, log @ [a1]))"
proof -
  have unfold: "searchNotes e srv (JStr s) sg log =
      (case (r1, log @ [a1]) of
         (Inr ns, log1) \<Rightarrow> (Inr ns, log1)
       | (Inl err1, log1) \<Rightarrow>
           (case (notes_result (response_result (srv log1 a2)), log1 @ [a2]) of
              (Inr ns, log2) \<Rightarrow> (Inr ns, log2)
            | (Inl err2, log2) \<Rightarrow>
                (notes_result (response_result (srv log2 a3)), log2 @ [a3])))"
    unfolding searchNotes_def js_String_query Let_def attempt_eq
    using assms(2) by (simp only: assms(1,3-6) [symmetric] if_False)
  show ?thesis
  proof (cases r1)
    case (Inr ns)
    then show ?thesis unfolding unfold by simp
  next
    case (Inl err1)
    show ?thesis
    proof (cases r2)
      case (Inr ns)
      then show ?thesis unfolding unfold using Inl by (simp add: assms(7))
    next
      case Inl2: (Inl err2)
      then show ?thesis unfolding unfold using Inl by (simp add: assms(7,8))
    qed
  qed
qed

lemma loadNotes_settle_abort:
  "err_name err = ''AbortError'' \<Longrightarrow> loadNotes_settle (Inl err) s = s\<lparr>loading := False\<rparr>"
  by (simp add: loadNotes_settle_def)

subsection \<open>The client-side filter and the notes on display\<close>

text \<open>
  Claim C1 fails on the code. The search text becomes \<open>milk\<close>, the timer fires, and the
  server search settles with the one note the backend found, titled \<open>Dairy\<close>. The flag
  is then true and the collection is the server's result, but line 37 filters it again
  by the search text, and nothing is on display: the result the server returned is not
  shown.
\<close>

theorem visibleNotes_hides_server_result:
  "snd (search_timer_fired (search_effect (setSearch ''milk'' init_state))) = 0
   \<and> fst (searchNotes same_origin related_search (JStr ''milk'') (Some 0) []) = Inr [dairy_note]
   \<and> serverSearchActive
        (search_settle (fst (searchNotes same_origin related_search (JStr ''milk'') (Some 0) []))
           (fst (search_timer_fired (search_effect (setSearch ''milk'' init_state)))))
   \<and> notes_st
        (search_settle (fst (searchNotes same_origin related_search (JStr ''milk'') (Some 0) []))
           (fst (search_timer_fired (search_effect (setSearch ''milk'' init_state)))))
       = [dairy_note]
   \<and> visibleNotes
        (search_settle (fst (searchNotes same_origin related_search (JStr ''milk'') (Some 0) []))
           (fst (search_timer_fired (search_effect (setSearch ''milk'' init_state)))))
       = []"
proof -
  have r: "fst (searchNotes same_origin related_search (JStr ''milk'') (Some 0) [])
             = Inr [dairy_note]"
    by (simp add: searchNotes_def js_String_query js_trim_def is_space_def Let_def
        encodeURIComponent_def encode_char_def unreserved_def requestJson_eq related_search_def
        json_response_def response_result_def res_ok_def isJson_def str_or_def
        normalizeNotesResponse_def normalizeNote_def dairy_note_def js_nullish_def
        js_nullish_val_def)
  show ?thesis
    unfolding r
    by (simp add: search_settle_def search_timer_fired_def search_effect_def setSearch_def
        init_state_def visibleNotes_def filterClientSide_def js_or_val_def js_trim_def
        is_space_def dairy_note_def containsInsensitive_def js_get_opt_def toLowerCase_def
        lower_char_def Let_def)
qed

subsection \<open>A list request that is canceled\<close>

text \<open>
  Claim C2 fails on the code. A second \<open>loadNotes\<close> supersedes the first: it aborts
  controller 0 and sets the loading flag. The first request then settles with the abort
  error that \<open>listNotes\<close> passes on, and the \<open>finally\<close> block clears the loading flag
  while the second request is still pending.
\<close>

theorem loadNotes_cancel_clears_loading:
  "snd (loadNotes_start init_state) = 0
   \<and> aborted (fst (loadNotes_start (fst (loadNotes_start init_state)))) = [0]
   \<and> loading (fst (loadNotes_start (fst (loadNotes_start init_state))))
   \<and> fst (listNotes same_origin aborting (Some 0) []) =
       Inl (JsError ''AbortError'' ''The user aborted a request.'' None)
   \<and> \<not> loading (loadNotes_settle (fst (listNotes same_origin aborting (Some 0) []))
                  (fst (loadNotes_start (fst (loadNotes_start init_state)))))"
  by (simp add: loadNotes_start_def init_state_def loadNotes_settle_def listNotes_def
      requestJson_def response_result_def aborting_def to_error_def Let_def)

subsection \<open>The adapter\<close>

text \<open>
  Claim C3. \<open>updateNote\<close> first issues a \<open>PUT\<close> to \<open>/notes/{id}\<close>. Its error carries the
  status 405 exactly when the response has status 405; in that case, and in no other,
  one \<open>PATCH\<close> follows, a request that differs from the \<open>PUT\<close> in the method only (same
  URL, same body), and its outcome is the outcome of the call. Otherwise the outcome of
  the \<open>PUT\<close> is the outcome of the call and no other request is made. A failure is
  passed on as it is.
\<close>

theorem updateNote_put_then_patch:
  "let put = build_request e (''/notes/'' @ encodeURIComponent (js_String i)) ''PUT''
               (Some (stringify
                  (JObj [(''title'', js_nullish_val (js_get_opt payload ''title'') (JStr [])),
                         (''content'',
                          js_nullish_val (js_get_opt payload ''content'') (JStr []))])))
               sg;
       patch = put\<lparr>req_method := ''PATCH''\<rparr>
   in failed_with 405 (response_result (srv log put)) = is_status 405 (srv log put)
      \<and> updateNote e stringify srv i payload sg log =
          (if is_status 405 (srv log put)
           then (note_result (response_result (srv (log @ [put]) patch)), log @ [put, patch])
           else (note_result (response_result (srv log put)), log @ [put]))"
  unfolding Let_def build_request_method
  using updateNote_eq [OF refl refl, of e stringify srv i payload sg log]
  by (simp only: failed_with_405 simp_thms)

text \<open>An instance: against a backend that answers 405 to \<open>PUT\<close>, two requests are made,
  to the same URL and with the same body.\<close>

theorem updateNote_put_then_patch_witness:
  "fst (updateNote same_origin sample_stringify patch_only (JStr ''a b'')
          (JObj [(''title'', JStr ''Milk''), (''content'', JStr ''buy'')]) None []) = Inr milk_note
   \<and> map req_method (snd (updateNote same_origin sample_stringify patch_only (JStr ''a b'')
          (JObj [(''title'', JStr ''Milk''), (''content'', JStr ''buy'')]) None []))
       = [''PUT'', ''PATCH'']
   \<and> map url (snd (updateNote same_origin sample_stringify patch_only (JStr ''a b'')
          (JObj [(''title'', JStr ''Milk''), (''content'', JStr ''buy'')]) None []))
       = [''/notes/a%20b'', ''/notes/a%20b'']
   \<and> map body (snd (updateNote same_origin sample_stringify patch_only (JStr ''a b'')
          (JObj [(''title'', JStr ''Milk''), (''content'', JStr ''buy'')]) None []))
       = [Some (sample_stringify (JObj [(''title'', JStr ''Milk''), (''content'', JStr ''buy'')])),
          Some (sample_stringify (JObj [(''title'', JStr ''Milk''), (''content'', JStr ''buy'')]))]"
  using updateNote_put_then_patch
    [where e = same_origin and stringify = sample_stringify and srv = patch_only
       and i = "JStr ''a b''" and sg = None and log = "[]"
       and payload = "JObj [(''title'', JStr ''Milk''), (''content'', JStr ''buy'')]"]
  by (simp add: Let_def build_request_def same_origin_def getApiBaseUrl_def normalizeBaseUrl_def
      str_or_def encodeURIComponent_def encode_char_def unreserved_def hex_digits_def
      patch_only_def is_status_def json_response_def response_result_def res_ok_def isJson_def
      note_result_def note_or_null_def normalizeNote_def milk_note_def js_nullish_def
      js_nullish_val_def js_get_opt_def)

text \<open>
  Claim C4. For a query whose trimmed form is not empty, \<open>searchNotes\<close> tries \<open>q\<close> on
  \<open>/notes/search\<close>, then \<open>query\<close> on \<open>/notes/search\<close>, then \<open>q\<close> on \<open>/notes\<close>, each
  with the encoded trimmed query. The first attempt that does not fail gives the result
  and no request follows it; when the three fail, the failure of the third is the
  result.
\<close>

theorem searchNotes_three_attempts:
  assumes "js_trim s \<noteq> []"
  shows "let q = encodeURIComponent (js_trim s);
             a1 = build_request e (''/notes/search?q='' @ q) ''GET'' None sg;
             a2 = build_request e (''/notes/search?query='' @ q) ''GET'' None sg;
             a3 = build_request e (''/notes?q='' @ q) ''GET'' None sg;
             r1 = notes_result (response_result (srv log a1));
             r2 = notes_result (response_result (srv (log @ [a1]) a2));
             r3 = notes_result (response_result (srv (log @ [a1, a2]) a3))
         in searchNotes e srv (JStr s) sg log =
              (if isl r1 then
                 (if isl r2 then (r3, log @ [a1, a2, a3]) else (r2, log @ [a1, a2]))
               else (r1, log @ [a1]))"
proof -
  have q: "encodeURIComponent (js_trim s) \<noteq> []"
    using assms by (simp add: encodeURIComponent_empty_iff)
  show ?thesis
    unfolding Let_def by (rule searchNotes_eq [OF refl q refl refl refl refl refl refl])
qed

text \<open>An instance: against a backend without the search path the third attempt gives the
  result, and against a network that is down the third failure is passed on.\<close>

theorem searchNotes_three_attempts_witness:
  "js_trim '' milk '' \<noteq> []
   \<and> fst (searchNotes same_origin no_search_path (JStr '' milk '') None []) = Inr [milk_note]
   \<and> map url (snd (searchNotes same_origin no_search_path (JStr '' milk '') None []))
       = [''/notes/search?q=milk'', ''/notes/search?query=milk'', ''/notes?q=milk'']
   \<and> fst (searchNotes same_origin offline (JStr '' milk '') None [])
       = Inl (JsError ''TypeError'' ''Failed to fetch'' None)
   \<and> length (snd (searchNotes same_origin offline (JStr '' milk '') None [])) = 3"
proof -
  have t: "js_trim '' milk '' \<noteq> []"
    by (simp add: js_trim_def is_space_def)
  show ?thesis
    using t
      searchNotes_three_attempts [OF t, of same_origin None no_search_path "[]"]
      searchNotes_three_attempts [OF t, of same_origin None offline "[]"]
    by (simp add: Let_def js_trim_def is_space_def build_request_def same_origin_def
        getApiBaseUrl_def normalizeBaseUrl_def str_or_def encodeURIComponent_def encode_char_def
        unreserved_def no_search_path_def offline_def json_response_def response_result_def
        res_ok_def isJson_def notes_result_def normalizeNotesResponse_def normalizeNote_def
        milk_note_def js_nullish_def js_nullish_val_def to_error_def error_message_def
        js_get_opt_def js_or_def js_or_val_def)
qed

text \<open>
  Claim C5. Whether the body of an ok JSON response is the bare array \<open>xs\<close>, the object
  \<open>{items: xs}\<close> or the object \<open>{notes: xs}\<close>, \<open>listNotes\<close> returns the same sequence:
  the normalized elements of \<open>xs\<close>.
\<close>

theorem listNotes_response_shapes:
  assumes "res_ok res" and "status res \<noteq> 204" and "isJson res"
    and "shape \<in> {JArr xs, JObj [(''items'', JArr xs)], JObj [(''notes'', JArr xs)]}"
  shows "listNotes e (\<lambda>log req. Resolved (res\<lparr>json_result := Inr shape\<rparr>)) sg log =
           (Inr (filter truthy (map normalizeNote xs)),
            log @ [build_request e ''/notes'' ''GET'' None sg])"
proof -
  have r: "response_result (Resolved (res\<lparr>json_result := Inr shape\<rparr>)) = Inr shape"
    using assms(1-3) by (simp add: response_result_def res_ok_def isJson_def)
  have n: "normalizeNotesResponse shape = Inr (filter truthy (map normalizeNote xs))"
    using assms(4)
    by (auto simp: normalizeNotesResponse_array normalizeNotesResponse_items
        normalizeNotesResponse_notes)
  show ?thesis
    by (simp add: listNotes_def requestJson_eq r n)
qed

text \<open>An instance: the three shapes of a body with one raw note and one string.\<close>

theorem listNotes_response_shapes_witness:
  "res_ok (json_response 200 JNull []) \<and> status (json_response 200 JNull []) \<noteq> 204
   \<and> isJson (json_response 200 JNull [])
   \<and> fst (listNotes same_origin
             (\<lambda>log req. Resolved (json_response 200 (JArr [milk_note, JStr ''x'']) []))
             None []) = Inr [milk_note]
   \<and> fst (listNotes same_origin
             (\<lambda>log req. Resolved
                (json_response 200 (JObj [(''items'', JArr [milk_note, JStr ''x''])]) []))
             None []) = Inr [milk_note]
   \<and> fst (listNotes same_origin
             (\<lambda>log req. Resolved
                (json_response 200 (JObj [(''notes'', JArr [milk_note, JStr ''x''])]) []))
             None []) = Inr [milk_note]"
proof -
  have a: "res_ok (json_response 200 JNull [])"
    by (simp add: res_ok_def json_response_def)
  have b: "status (json_response 200 JNull []) \<noteq> 204"
    by (simp add: json_response_def)
  have c: "isJson (json_response 200 JNull [])"
    by (simp add: isJson_def json_response_def str_or_def)
  have u: "(json_response 200 JNull [])\<lparr>json_result := Inr v\<rparr> = json_response 200 v []" for v
    by (simp add: json_response_def)
  have n: "filter truthy (map normalizeNote [milk_note, JStr ''x'']) = [milk_note]"
    by (simp add: normalizeNote_def milk_note_def js_nullish_def js_nullish_val_def)
  have d1: "JArr [milk_note, JStr ''x'']
              \<in> {JArr [milk_note, JStr ''x''], JObj [(''items'', JArr [milk_note, JStr ''x''])],
                 JObj [(''notes'', JArr [milk_note, JStr ''x''])]}"
    by simp
  have d2: "JObj [(''items'', JArr [milk_note, JStr ''x''])]
              \<in> {JArr [milk_note, JStr ''x''], JObj [(''items'', JArr [milk_note, JStr ''x''])],
                 JObj [(''notes'', JArr [milk_note, JStr ''x''])]}"
    by simp
  have d3: "JObj [(''notes'', JArr [milk_note, JStr ''x''])]
              \<in> {JArr [milk_note, JStr ''x''], JObj [(''items'', JArr [milk_note, JStr ''x''])],
                 JObj [(''notes'', JArr [milk_note, JStr ''x''])]}"
    by simp
  show ?thesis
    using a b c
      listNotes_response_shapes [OF a b c d1, of same_origin None "[]", unfolded u n]
      listNotes_response_shapes [OF a b c d2, of same_origin None "[]", unfolded u n]
      listNotes_response_shapes [OF a b c d3, of same_origin None "[]", unfolded u n]
    by simp
qed

text \<open>
  Claim C6. For a raw note object without \<open>id\<close>: when none of \<open>note_id\<close>, \<open>_id\<close>, \<open>uuid\<close>
  is present, the \<open>id\<close> of the normalized note is \<open>null\<close>; when one at least is present,
  the \<open>id\<close> is the value of one that is present; and when exactly one is present, the
  \<open>id\<close> is its value.
\<close>

theorem normalizeNote_id_alias:
  assumes "map_of kvs ''id'' = None"
  shows "(list_all (\<lambda>a. map_of kvs a = None) id_aliases
            \<longrightarrow> js_get (normalizeNote (JObj kvs)) ''id'' = Some JNull)
       \<and> (list_ex (\<lambda>a. map_of kvs a \<noteq> None) id_aliases
            \<longrightarrow> list_ex (\<lambda>a. map_of kvs a \<noteq> None
                   \<and> js_get (normalizeNote (JObj kvs)) ''id'' = map_of kvs a) id_aliases)
       \<and> (\<forall>a v. a \<in> set id_aliases \<and> map_of kvs a = Some v
                 \<and> list_all (\<lambda>b. b = a \<or> map_of kvs b = None) id_aliases
            \<longrightarrow> js_get (normalizeNote (JObj kvs)) ''id'' = Some v)"
  using assms
  by (auto simp: js_get_normalizeNote_id id_aliases_def js_nullish_def js_nullish_val_def
      split: option.splits)

text \<open>An instance: a record with \<open>uuid\<close> only, and a record with no identifier at all.\<close>

theorem normalizeNote_id_alias_witness:
  "map_of [(''uuid'', JStr ''u1''), (''title'', JStr ''T'')] ''id'' = None
   \<and> js_get (normalizeNote (JObj [(''uuid'', JStr ''u1''), (''title'', JStr ''T'')])) ''id''
       = Some (JStr ''u1'')
   \<and> map_of [(''title'', JStr ''T'')] ''id'' = None
   \<and> js_get (normalizeNote (JObj [(''title'', JStr ''T'')])) ''id'' = Some JNull"
proof -
  have a: "map_of [(''uuid'', JStr ''u1''), (''title'', JStr ''T'')] ''id'' = None" by simp
  have b: "map_of [(''title'', JStr ''T'')] ''id'' = None" by simp
  show ?thesis
    using a b normalizeNote_id_alias [OF a] normalizeNote_id_alias [OF b]
    by (simp add: id_aliases_def)
qed

text \<open>
  Claim C7. For a query string whose trimmed form is empty, \<open>searchNotes\<close> returns the
  empty sequence and the log of requests is what it was: no request is made.
\<close>

theorem searchNotes_blank_query:
  "js_trim s = [] \<Longrightarrow> searchNotes e srv (JStr s) sg log = (Inr [], log)"
  by (simp add: searchNotes_def js_String_query encodeURIComponent_empty_iff Let_def)

text \<open>An instance: the empty string and a string of two spaces.\<close>

theorem searchNotes_blank_query_witness:
  "js_trim '''' = [] \<and> js_trim ''  '' = []
   \<and> searchNotes same_origin offline (JStr '''') None [] = (Inr [], [])
   \<and> searchNotes same_origin offline (JStr ''  '') None [] = (Inr [], [])"
proof -
  have a: "js_trim '''' = []" by (simp add: js_trim_def)
  have b: "js_trim ''  '' = []" by (simp add: js_trim_def is_space_def)
  show ?thesis
    using a b searchNotes_blank_query [OF a, of same_origin offline None "[]"]
      searchNotes_blank_query [OF b, of same_origin offline None "[]"]
    by simp
qed

text \<open>
  Claim C8, as amended. For every response whose status is not 2xx, \<open>requestJson\<close> fails
  with an error that carries the status and a message: for a JSON response the \<open>detail\<close>
  field of the body when it is truthy, else the \<open>message\<close> field when it is truthy (either
  converted to a string), else \<open>Request failed (status)\<close>, the raw text not being read;
  for any other response the raw text when it is not empty, else \<open>Request failed
  (status)\<close>.
\<close>

theorem requestJson_not_ok:
  assumes "srv log (build_request e path m b sg) = Resolved res" and "\<not> res_ok res"
  shows "requestJson e srv path m b sg log =
           (Inl (JsError ''Error'' (amended_message res) (Some (status res))),
            log @ [build_request e path m b sg])"
  using assms by (simp add: requestJson_eq response_result_def error_message_amended)

text \<open>An instance: a 404 with a \<open>detail\<close> field.\<close>

theorem requestJson_not_ok_witness:
  "\<not> res_ok (json_response 404 (JObj [(''detail'', JStr ''Not Found'')]) [])
   \<and> fst (requestJson same_origin no_search_path ''/notes/search?q=milk'' ''GET'' None None [])
       = Inl (JsError ''Error'' ''Not Found'' (Some 404))"
proof -
  have a: "no_search_path [] (build_request same_origin ''/notes/search?q=milk'' ''GET'' None None)
             = Resolved (json_response 404 (JObj [(''detail'', JStr ''Not Found'')]) [])"
    by (simp add: no_search_path_def build_request_def same_origin_def getApiBaseUrl_def
        normalizeBaseUrl_def str_or_def)
  have b: "\<not> res_ok (json_response 404 (JObj [(''detail'', JStr ''Not Found'')]) [])"
    by (simp add: res_ok_def json_response_def)
  show ?thesis
    using b requestJson_not_ok
      [where srv = no_search_path and log = "[]" and e = same_origin
         and path = "''/notes/search?q=milk''" and m = "''GET''" and b = None and sg = None,
       OF a b]
    by (simp add: amended_message_def truthy_field_def isJson_def json_response_def str_or_def
        js_get_opt_def)
qed

text \<open>
  Claim C8 as stated fails. A 500 response with the JSON body \<open>{}\<close> has no \<open>detail\<close> and
  no \<open>message\<close>, and its raw text is not empty: the chain of the claim gives the raw text
  \<open>{}\<close>, the code gives \<open>Request failed (500)\<close>.
\<close>

theorem claimed_message_counterexample:
  "response_result (Resolved (json_response 500 (JObj []) ''{}'')) =
     Inl (JsError ''Error'' ''Request failed (500)'' (Some 500))
   \<and> claimed_message (json_response 500 (JObj []) ''{}'') = ''{}''"
  by (simp add: response_result_def res_ok_def error_message_def isJson_def str_or_def
      json_response_def js_get_opt_def js_or_def js_or_val_def generic_message_def
      show_nat.simps digits_def claimed_message_def)

text \<open>
  Claim C9, as amended. From a response array the normalized sequence keeps the objects
  (arrays among them), in order, and drops every other element: \<open>null\<close>, strings, numbers
  and booleans. Every note of the result is an object with \<open>id\<close>, \<open>title\<close> and \<open>content\<close>
  present, \<open>title\<close> and \<open>content\<close> being neither \<open>undefined\<close> nor \<open>null\<close>: the title is
  the raw title, or the empty string when that is missing or \<open>null\<close>; the content is the
  raw content, else the raw body, or the empty string when both are missing or \<open>null\<close>.
  They are strings when the raw values are; a raw value of another type is kept as it
  is. The \<open>id\<close> may be \<open>null\<close>.
\<close>

theorem normalizeNotesResponse_shape_of_notes:
  "normalizeNotesResponse (JArr xs) = Inr (map normalizeNote (filter is_object xs))
   \<and> list_all note_fields_present (map normalizeNote (filter is_object xs))
   \<and> list_all (\<lambda>x. js_get (normalizeNote x) ''title''
                      = Some (js_nullish_val (js_get x ''title'') (JStr []))
                    \<and> js_get (normalizeNote x) ''content''
                      = Some (js_nullish_val
                                (js_nullish (js_get x ''content'') (js_get x ''body''))
                                (JStr [])))
       (filter is_object xs)"
  by (simp add: normalizeNotesResponse_array filter_truthy_normalizeNote list_all_iff
      note_fields_present_normalizeNote normalizeNote_title_content)

text \<open>An instance: \<open>null\<close>, a string, a number and a boolean are dropped, a record with a
  body and no title is completed.\<close>

theorem normalizeNotesResponse_shape_of_notes_witness:
  "normalizeNotesResponse
     (JArr [JNull, JStr ''x'', JNum 3, JBool True, JObj [(''_id'', JStr ''a''), (''body'', JStr ''B'')]])
   = Inr [JObj [(''_id'', JStr ''a''), (''body'', JStr ''B''), (''id'', JStr ''a''),
                (''title'', JStr []), (''content'', JStr ''B'')]]"
  using normalizeNotesResponse_shape_of_notes
    [of "[JNull, JStr ''x'', JNum 3, JBool True, JObj [(''_id'', JStr ''a''), (''body'', JStr ''B'')]]"]
  by (simp add: is_object_def normalizeNote_def js_nullish_def js_nullish_val_def)

text \<open>
  Claim C9 as stated fails. A raw note whose title is the number 5 is normalized to a
  note whose title is the number 5, not a string.
\<close>

theorem note_complete_counterexample:
  "normalizeNotesResponse (JArr [JObj [(''title'', JNum 5)]]) =
     Inr [JObj [(''title'', JNum 5), (''id'', JNull), (''content'', JStr [])]]
   \<and> \<not> note_complete (JObj [(''title'', JNum 5), (''id'', JNull), (''content'', JStr [])])"
  by (simp add: normalizeNotesResponse_def normalizeNote_def js_nullish_def js_nullish_val_def
      note_complete_def is_string_def)

text \<open>
  Claim C10. The \<open>id\<close> of the normalized note is the first value that is neither missing
  nor \<open>null\<close> among \<open>id\<close>, \<open>note_id\<close>, \<open>_id\<close>, \<open>uuid\<close>, in this order, and \<open>null\<close> when
  there is none; its \<open>content\<close> is the first such value among \<open>content\<close>, \<open>body\<close>, and
  the empty string when there is none.
\<close>

theorem normalizeNote_precedence:
  "js_get (normalizeNote (JObj kvs)) ''id'' =
     Some (first_non_nullish
             [map_of kvs ''id'', map_of kvs ''note_id'', map_of kvs ''_id'', map_of kvs ''uuid'']
             JNull)
   \<and> js_get (normalizeNote (JObj kvs)) ''content'' =
     Some (first_non_nullish [map_of kvs ''content'', map_of kvs ''body''] (JStr []))"
  by (simp add: js_get_normalizeNote_id js_get_normalizeNote_content js_nullish_def
      js_nullish_val_def split: option.splits)

text \<open>An instance: a record with all four identifiers and with both \<open>content\<close> and
  \<open>body\<close>, and one whose \<open>id\<close> is \<open>null\<close>.\<close>

theorem normalizeNote_precedence_witness:
  "js_get (normalizeNote (JObj [(''uuid'', JStr ''u''), (''_id'', JStr ''o''), (''note_id'', JStr ''n''),
                                 (''id'', JNum 3), (''body'', JStr ''B''), (''content'', JStr ''C'')]))
     ''id'' = Some (JNum 3)
   \<and> js_get (normalizeNote (JObj [(''uuid'', JStr ''u''), (''_id'', JStr ''o''), (''note_id'', JStr ''n''),
                                 (''id'', JNum 3), (''body'', JStr ''B''), (''content'', JStr ''C'')]))
     ''content'' = Some (JStr ''C'')
   \<and> js_get (normalizeNote (JObj [(''uuid'', JStr ''u''), (''_id'', JStr ''o''), (''id'', JNull)]))
     ''id'' = Some (JStr ''o'')"
  using normalizeNote_precedence
    [of "[(''uuid'', JStr ''u''), (''_id'', JStr ''o''), (''note_id'', JStr ''n''),
          (''id'', JNum 3), (''body'', JStr ''B''), (''content'', JStr ''C'')]"]
    normalizeNote_precedence [of "[(''uuid'', JStr ''u''), (''_id'', JStr ''o''), (''id'', JNull)]"]
  by simp

end
